theory Spec2Isabelle
  imports Main
begin

section \<open>Host values: Python's None, int, float, str and bool\<close>

text \<open>
  The interpreter of \<^verbatim>\<open>stimpl/runtime.py\<close> computes with the values of its host
  language. An \<^verbatim>\<open>int\<close> is unbounded (\<open>int\<close>); a \<^verbatim>\<open>float\<close> is an IEEE-754
  binary64 number, modelled exactly: a finite float is a sign, a mantissa \<open>m\<close> and an
  exponent \<open>e\<close> standing for \<open>m * 2 ^ e\<close>, and every arithmetic operation rounds the
  exact result to the nearest representable number, ties to the even mantissa.
  A \<^verbatim>\<open>str\<close> is the list of the bytes of its UTF-8 encoding, whose order is the
  order of the code points. Limits of memory and of the recursion depth of the host
  are not modelled.
\<close>

datatype pyfloat = Finite bool nat int | Infinity bool | NaN

text \<open>Number of binary digits of a natural number.\<close>

fun bitlen :: "nat \<Rightarrow> nat" where
  "bitlen n = (if n = 0 then 0 else Suc (bitlen (n div 2)))"

text \<open>The canonical form of a finite float: an odd mantissa, or zero with exponent 0.\<close>

fun normalise :: "nat \<Rightarrow> int \<Rightarrow> nat \<times> int" where
  "normalise m e =
     (if m = 0 then (0, 0)
      else if even m then normalise (m div 2) (e + 1)
      else (m, e))"

text \<open>\<open>p div q\<close> rounded to the nearest natural number, ties to even.\<close>

definition round_half_even :: "nat \<Rightarrow> nat \<Rightarrow> nat" where
  "round_half_even p q =
     (let d = p div q; r = p mod q
      in if 2 * r < q then d
         else if q < 2 * r then d + 1
         else if even d then d else d + 1)"

text \<open>\<open>\<lfloor>log\<^sub>2 (p / q)\<rfloor>\<close> for positive \<open>p\<close> and \<open>q\<close>.\<close>

definition floor_log2 :: "nat \<Rightarrow> nat \<Rightarrow> int" where
  "floor_log2 p q =
     (let k = int (bitlen p) - int (bitlen q)
      in if (if 0 \<le> k then q * 2 ^ nat k \<le> p else q \<le> p * 2 ^ nat (- k))
         then k else k - 1)"

text \<open>
  The binary64 number nearest to the rational \<open>p / q\<close> (\<open>q\<close> positive) with the sign
  \<open>sg\<close>: 53 bits of mantissa, the exponent of the last bit at least \<open>-1074\<close>
  (below that the numbers are subnormal), and infinity from \<open>2 ^ 1024\<close> on.
\<close>

definition round_to_double :: "bool \<Rightarrow> nat \<Rightarrow> nat \<Rightarrow> pyfloat" where
  "round_to_double sg p q =
     (if p = 0 then Finite sg 0 0
      else
        let e = max (floor_log2 p q - 52) (- 1074);
            m = (if 0 \<le> e then round_half_even p (q * 2 ^ nat e)
                 else round_half_even (p * 2 ^ nat (- e)) q)
        in if 971 < e \<or> (e = 971 \<and> 2 ^ 53 \<le> m) then Infinity sg
           else (case normalise m e of (m', e') \<Rightarrow> Finite sg m' e'))"

text \<open>The exact value \<open>m * 2 ^ e\<close> as a fraction.\<close>

definition dyadic_num :: "nat \<Rightarrow> int \<Rightarrow> nat" where
  "dyadic_num m e = (if 0 \<le> e then m * 2 ^ nat e else m)"

definition dyadic_den :: "int \<Rightarrow> nat" where
  "dyadic_den e = (if 0 \<le> e then 1 else 2 ^ nat (- e))"

definition float_is_zero :: "pyfloat \<Rightarrow> bool" where
  "float_is_zero x = (case x of Finite _ m _ \<Rightarrow> m = 0 | _ \<Rightarrow> False)"

definition float_neg :: "pyfloat \<Rightarrow> pyfloat" where
  "float_neg x =
     (case x of Finite s m e \<Rightarrow> Finite (\<not> s) m e | Infinity s \<Rightarrow> Infinity (\<not> s) | NaN \<Rightarrow> NaN)"

text \<open>The signed integer \<open>\<plusminus> m * 2 ^ (e - e0)\<close> for \<open>e0 \<le> e\<close>.\<close>

definition scaled :: "bool \<Rightarrow> nat \<Rightarrow> int \<Rightarrow> int \<Rightarrow> int" where
  "scaled s m e e0 = (if s then - 1 else 1) * int m * 2 ^ nat (e - e0)"

fun float_add :: "pyfloat \<Rightarrow> pyfloat \<Rightarrow> pyfloat" where
  "float_add NaN _ = NaN"
| "float_add _ NaN = NaN"
| "float_add (Infinity s) (Infinity t) = (if s = t then Infinity s else NaN)"
| "float_add (Infinity s) (Finite _ _ _) = Infinity s"
| "float_add (Finite _ _ _) (Infinity t) = Infinity t"
| "float_add (Finite s m e) (Finite t n f) =
     (let e0 = min e f; z = scaled s m e e0 + scaled t n f e0
      in if z = 0 then Finite (s \<and> t) 0 0
         else round_to_double (z < 0) (dyadic_num (nat \<bar>z\<bar>) e0) (dyadic_den e0))"

definition float_sub :: "pyfloat \<Rightarrow> pyfloat \<Rightarrow> pyfloat" where
  "float_sub x y = float_add x (float_neg y)"

fun float_mul :: "pyfloat \<Rightarrow> pyfloat \<Rightarrow> pyfloat" where
  "float_mul NaN _ = NaN"
| "float_mul _ NaN = NaN"
| "float_mul (Infinity s) (Infinity t) = Infinity (s \<noteq> t)"
| "float_mul (Infinity s) (Finite t n f) = (if n = 0 then NaN else Infinity (s \<noteq> t))"
| "float_mul (Finite s m e) (Infinity t) = (if m = 0 then NaN else Infinity (s \<noteq> t))"
| "float_mul (Finite s m e) (Finite t n f) =
     round_to_double (s \<noteq> t) (dyadic_num (m * n) (e + f)) (dyadic_den (e + f))"

text \<open>Division by a float that is not zero (Python raises before dividing by zero).\<close>

fun float_div :: "pyfloat \<Rightarrow> pyfloat \<Rightarrow> pyfloat" where
  "float_div NaN _ = NaN"
| "float_div _ NaN = NaN"
| "float_div (Infinity s) (Infinity t) = NaN"
| "float_div (Infinity s) (Finite t n f) = Infinity (s \<noteq> t)"
| "float_div (Finite s m e) (Infinity t) = Finite (s \<noteq> t) 0 0"
| "float_div (Finite s m e) (Finite t n f) =
     round_to_double (s \<noteq> t) (dyadic_num m (e - f)) (dyadic_den (e - f) * n)"

text \<open>
  Comparison is by exact value, so it also compares an \<^verbatim>\<open>int\<close> (a mantissa of any
  size with exponent 0) with a float, as Python does. \<^verbatim>\<open>nan\<close> is unordered.
\<close>

fun float_lt :: "pyfloat \<Rightarrow> pyfloat \<Rightarrow> bool" where
  "float_lt NaN _ = False"
| "float_lt _ NaN = False"
| "float_lt (Infinity s) (Infinity t) = (s \<and> \<not> t)"
| "float_lt (Infinity s) (Finite _ _ _) = s"
| "float_lt (Finite _ _ _) (Infinity t) = (\<not> t)"
| "float_lt (Finite s m e) (Finite t n f) =
     (let e0 = min e f in scaled s m e e0 < scaled t n f e0)"

fun float_eq :: "pyfloat \<Rightarrow> pyfloat \<Rightarrow> bool" where
  "float_eq NaN _ = False"
| "float_eq _ NaN = False"
| "float_eq (Infinity s) (Infinity t) = (s = t)"
| "float_eq (Infinity s) (Finite _ _ _) = False"
| "float_eq (Finite _ _ _) (Infinity t) = False"
| "float_eq (Finite s m e) (Finite t n f) =
     (let e0 = min e f in scaled s m e e0 = scaled t n f e0)"

definition float_le :: "pyfloat \<Rightarrow> pyfloat \<Rightarrow> bool" where
  "float_le x y = (float_lt x y \<or> float_eq x y)"

datatype val = VNone | VInt int | VFloat pyfloat | VStr string | VBool bool

datatype host_error =
  UnboundLocalError | PyTypeError | OverflowError | ZeroDivisionError | ValueError

text \<open>The numeric values: \<^verbatim>\<open>bool\<close> is a subclass of \<^verbatim>\<open>int\<close>.\<close>

datatype pynum = NInt int | NFloat pyfloat

fun as_num :: "val \<Rightarrow> pynum option" where
  "as_num (VInt i) = Some (NInt i)"
| "as_num (VBool b) = Some (NInt (if b then 1 else 0))"
| "as_num (VFloat x) = Some (NFloat x)"
| "as_num _ = None"

fun num_exact :: "pynum \<Rightarrow> pyfloat" where
  "num_exact (NInt i) = Finite (i < 0) (nat \<bar>i\<bar>) 0"
| "num_exact (NFloat x) = x"

text \<open>Conversion of an \<^verbatim>\<open>int\<close> to a float: rounded, an error when out of range.\<close>

definition float_of_int :: "int \<Rightarrow> host_error + pyfloat" where
  "float_of_int i =
     (case round_to_double (i < 0) (nat \<bar>i\<bar>) 1 of
        Infinity _ \<Rightarrow> Inl OverflowError
      | x \<Rightarrow> Inr x)"

fun to_float :: "pynum \<Rightarrow> host_error + pyfloat" where
  "to_float (NInt i) = float_of_int i"
| "to_float (NFloat x) = Inr x"

definition float_binop ::
  "(pyfloat \<Rightarrow> pyfloat \<Rightarrow> pyfloat) \<Rightarrow> pynum \<Rightarrow> pynum \<Rightarrow> host_error + val" where
  "float_binop f x y =
     (case to_float x of
        Inl err \<Rightarrow> Inl err
      | Inr a \<Rightarrow> (case to_float y of Inl err \<Rightarrow> Inl err | Inr b \<Rightarrow> Inr (VFloat (f a b))))"

text \<open>Python's \<^verbatim>\<open>+\<close>, \<^verbatim>\<open>-\<close> and \<^verbatim>\<open>*\<close> on the five kinds of value.\<close>

fun num_add :: "pynum \<Rightarrow> pynum \<Rightarrow> host_error + val" where
  "num_add (NInt i) (NInt j) = Inr (VInt (i + j))"
| "num_add x y = float_binop float_add x y"

fun num_sub :: "pynum \<Rightarrow> pynum \<Rightarrow> host_error + val" where
  "num_sub (NInt i) (NInt j) = Inr (VInt (i - j))"
| "num_sub x y = float_binop float_sub x y"

fun num_mul :: "pynum \<Rightarrow> pynum \<Rightarrow> host_error + val" where
  "num_mul (NInt i) (NInt j) = Inr (VInt (i * j))"
| "num_mul x y = float_binop float_mul x y"

definition py_add :: "val \<Rightarrow> val \<Rightarrow> host_error + val" where
  "py_add a b =
     (case (as_num a, as_num b) of
        (Some x, Some y) \<Rightarrow> num_add x y
      | _ \<Rightarrow> (case (a, b) of
                (VStr s, VStr t) \<Rightarrow> Inr (VStr (s @ t))
              | _ \<Rightarrow> Inl PyTypeError))"

definition py_sub :: "val \<Rightarrow> val \<Rightarrow> host_error + val" where
  "py_sub a b =
     (case (as_num a, as_num b) of
        (Some x, Some y) \<Rightarrow> num_sub x y
      | _ \<Rightarrow> Inl PyTypeError)"

text \<open>A string times an \<^verbatim>\<open>int\<close> repeats the string (not at all for a count below 1).\<close>

definition str_repeat :: "string \<Rightarrow> int \<Rightarrow> string" where
  "str_repeat s i = concat (replicate (nat i) s)"

definition py_mul :: "val \<Rightarrow> val \<Rightarrow> host_error + val" where
  "py_mul a b =
     (case (as_num a, as_num b) of
        (Some x, Some y) \<Rightarrow> num_mul x y
      | _ \<Rightarrow> (case (a, as_num b) of
                (VStr s, Some (NInt i)) \<Rightarrow> Inr (VStr (str_repeat s i))
              | _ \<Rightarrow> (case (as_num a, b) of
                        (Some (NInt i), VStr s) \<Rightarrow> Inr (VStr (str_repeat s i))
                      | _ \<Rightarrow> Inl PyTypeError)))"

text \<open>
  Python's \<^verbatim>\<open>/\<close>: the quotient of two \<^verbatim>\<open>int\<close>s is the float nearest to the exact
  quotient; otherwise both operands are converted to floats first.
\<close>

fun num_truediv :: "pynum \<Rightarrow> pynum \<Rightarrow> host_error + pyfloat" where
  "num_truediv (NInt i) (NInt j) =
     (if j = 0 then Inl ZeroDivisionError
      else (case round_to_double ((i < 0) \<noteq> (j < 0)) (nat \<bar>i\<bar>) (nat \<bar>j\<bar>) of
              Infinity _ \<Rightarrow> Inl OverflowError
            | x \<Rightarrow> Inr x))"
| "num_truediv x y =
     (case to_float x of
        Inl err \<Rightarrow> Inl err
      | Inr a \<Rightarrow>
          (case to_float y of
             Inl err \<Rightarrow> Inl err
           | Inr b \<Rightarrow> if float_is_zero b then Inl ZeroDivisionError else Inr (float_div a b)))"

definition py_truediv :: "val \<Rightarrow> val \<Rightarrow> host_error + pyfloat" where
  "py_truediv a b =
     (case (as_num a, as_num b) of
        (Some x, Some y) \<Rightarrow> num_truediv x y
      | _ \<Rightarrow> Inl PyTypeError)"

text \<open>Python's \<^verbatim>\<open>int(x)\<close> on a float: the integer part, towards zero.\<close>

fun int_of_float :: "pyfloat \<Rightarrow> host_error + int" where
  "int_of_float (Finite s m e) =
     Inr ((if s then - 1 else 1) *
          (if 0 \<le> e then int m * 2 ^ nat e else int m div 2 ^ nat (- e)))"
| "int_of_float (Infinity s) = Inl OverflowError"
| "int_of_float NaN = Inl ValueError"

text \<open>Strings are ordered as lists of character codes.\<close>

fun str_lt :: "string \<Rightarrow> string \<Rightarrow> bool" where
  "str_lt [] [] = False"
| "str_lt [] (y # ys) = True"
| "str_lt (x # xs) [] = False"
| "str_lt (x # xs) (y # ys) =
     (if x = y then str_lt xs ys else (of_char x :: nat) < of_char y)"

definition py_lt :: "val \<Rightarrow> val \<Rightarrow> host_error + bool" where
  "py_lt a b =
     (case (as_num a, as_num b) of
        (Some x, Some y) \<Rightarrow> Inr (float_lt (num_exact x) (num_exact y))
      | _ \<Rightarrow> (case (a, b) of
                (VStr s, VStr t) \<Rightarrow> Inr (str_lt s t)
              | _ \<Rightarrow> Inl PyTypeError))"

definition py_le :: "val \<Rightarrow> val \<Rightarrow> host_error + bool" where
  "py_le a b =
     (case (as_num a, as_num b) of
        (Some x, Some y) \<Rightarrow> Inr (float_le (num_exact x) (num_exact y))
      | _ \<Rightarrow> (case (a, b) of
                (VStr s, VStr t) \<Rightarrow> Inr (str_lt s t \<or> s = t)
              | _ \<Rightarrow> Inl PyTypeError))"

definition py_gt :: "val \<Rightarrow> val \<Rightarrow> host_error + bool" where
  "py_gt a b = py_lt b a"

definition py_ge :: "val \<Rightarrow> val \<Rightarrow> host_error + bool" where
  "py_ge a b = py_le b a"

text \<open>Python's \<^verbatim>\<open>==\<close> never raises: values of unrelated kinds are unequal.\<close>

definition py_eq :: "val \<Rightarrow> val \<Rightarrow> bool" where
  "py_eq a b =
     (case (as_num a, as_num b) of
        (Some x, Some y) \<Rightarrow> float_eq (num_exact x) (num_exact y)
      | _ \<Rightarrow> (case (a, b) of
                (VStr s, VStr t) \<Rightarrow> s = t
              | (VNone, VNone) \<Rightarrow> True
              | _ \<Rightarrow> False))"

definition py_ne :: "val \<Rightarrow> val \<Rightarrow> bool" where
  "py_ne a b = (\<not> py_eq a b)"

text \<open>The truth value Python gives a value in \<^verbatim>\<open>if\<close>, \<^verbatim>\<open>while\<close>, \<^verbatim>\<open>and\<close>, \<^verbatim>\<open>or\<close>, \<^verbatim>\<open>not\<close>.\<close>

fun truthy :: "val \<Rightarrow> bool" where
  "truthy VNone = False"
| "truthy (VInt i) = (i \<noteq> 0)"
| "truthy (VFloat x) = (\<not> float_is_zero x)"
| "truthy (VStr s) = (s \<noteq> [])"
| "truthy (VBool b) = b"

section \<open>The language: types, syntax trees and errors\<close>

text \<open>
  Modelled from the spec: the type tags of \<^verbatim>\<open>stimpl/types.py\<close>, which is not among
  the sources. There are five tags, and two tags are equal when they are the same tag.
\<close>

datatype ty = Unit | Integer | FloatingPoint | String | Boolean

text \<open>
  Modelled from the spec: the node classes of \<^verbatim>\<open>stimpl/expression.py\<close>, which is
  not among the sources. A literal node wraps one host value of the matching kind, and
  \<open>Assign\<close> carries the name of its target variable. \<open>Unhandled\<close> stands for any
  node that no case of \<^verbatim>\<open>evaluate\<close> matches.
\<close>

datatype expr =
    Ren
  | IntLiteral int
  | FloatingPointLiteral pyfloat
  | StringLiteral string
  | BooleanLiteral bool
  | Print expr
  | Sequence "expr list"
  | Program "expr list"
  | Variable string
  | Assign string expr
  | Add expr expr
  | Subtract expr expr
  | Multiply expr expr
  | Divide expr expr
  | And expr expr
  | Or expr expr
  | Not_expr expr
  | If_expr expr expr expr
  | Lt expr expr
  | Lte expr expr
  | Gt expr expr
  | Gte expr expr
  | Eq expr expr
  | Ne expr expr
  | While expr expr
  | Unhandled

text \<open>
  Modelled from the spec: the three error classes of \<^verbatim>\<open>stimpl/errors.py\<close>, which is
  not among the sources; their messages are left out. \<open>HostError\<close> is an exception
  that the host raises by itself and that \<^verbatim>\<open>evaluate\<close> lets pass.
\<close>

datatype error =
  InterpSyntaxError | InterpTypeError | InterpMathError | HostError host_error

section \<open>Interpreter state\<close>

text \<open>
  \<^verbatim>\<open>class State\<close>: a chain of bindings. No method assigns to a field of an existing
  object, so a state is the value of its chain.
\<close>

datatype state = EmptyState | State string val ty state

fun set_value :: "state \<Rightarrow> string \<Rightarrow> val \<Rightarrow> ty \<Rightarrow> state" where
  "set_value self variable_name variable_value variable_type =
     State variable_name variable_value variable_type self"

fun get_value :: "state \<Rightarrow> string \<Rightarrow> (val \<times> ty) option" where
  "get_value EmptyState variable_name = None"
| "get_value (State name variable_value variable_type next_state) variable_name =
     (if name = variable_name then Some (variable_value, variable_type)
      else get_value next_state variable_name)"

text \<open>\<^verbatim>\<open>copy\<close> builds a new head object with the fields of the old one.\<close>

fun copy :: "state \<Rightarrow> state" where
  "copy EmptyState = EmptyState"
| "copy (State variable_name variable_value variable_type next_state) =
     State variable_name variable_value variable_type next_state"

text \<open>The names that have a binding somewhere in the chain.\<close>

fun bound_names :: "state \<Rightarrow> string set" where
  "bound_names EmptyState = {}"
| "bound_names (State name variable_value variable_type next_state) =
     insert name (bound_names next_state)"

subsection \<open>The objects behind a state\<close>

text \<open>
  In the source a state is a handle to an object whose \<^verbatim>\<open>next_state\<close> field is a
  handle again, and an older handle stays in use after \<^verbatim>\<open>set_value\<close> has returned
  a new one. Here the objects live in a store: the list of the objects created so
  far, the address of an object being its position. Creating an object appends it.
\<close>

datatype state_obj = EmptyStateObj | StateObj string val ty nat

type_synonym store = "state_obj list"

definition new_obj :: "store \<Rightarrow> state_obj \<Rightarrow> store \<times> nat" where
  "new_obj h obj = (h @ [obj], length h)"

definition new_EmptyState :: "store \<Rightarrow> store \<times> nat" where
  "new_EmptyState h = new_obj h EmptyStateObj"

definition set_value_at :: "store \<Rightarrow> nat \<Rightarrow> string \<Rightarrow> val \<Rightarrow> ty \<Rightarrow> store \<times> nat" where
  "set_value_at h self variable_name variable_value variable_type =
     new_obj h (StateObj variable_name variable_value variable_type self)"

definition copy_at :: "store \<Rightarrow> nat \<Rightarrow> (store \<times> nat) option" where
  "copy_at h self = (if self < length h then Some (new_obj h (h ! self)) else None)"

text \<open>
  \<^verbatim>\<open>get_value\<close> on a handle follows the \<^verbatim>\<open>next_state\<close> fields. The result is \<open>None\<close>
  when the walk leaves the store or never ends, \<open>Some None\<close> when Python's
  \<^verbatim>\<open>None\<close> is returned, and \<open>Some (Some (value, type))\<close> for a binding.
\<close>

partial_function (option) get_value_at ::
  "store \<Rightarrow> nat \<Rightarrow> string \<Rightarrow> (val \<times> ty) option option" where
  "get_value_at h self variable_name =
     (if self < length h then
        (case h ! self of
           EmptyStateObj \<Rightarrow> Some None
         | StateObj name variable_value variable_type next_state \<Rightarrow>
             if name = variable_name then Some (Some (variable_value, variable_type))
             else get_value_at h next_state variable_name)
      else None)"

text \<open>The handle \<open>a\<close> of the store \<open>h\<close> stands for the chain \<open>s\<close>.\<close>

fun represents :: "store \<Rightarrow> nat \<Rightarrow> state \<Rightarrow> bool" where
  "represents h a EmptyState = (a < length h \<and> h ! a = EmptyStateObj)"
| "represents h a (State name variable_value variable_type next_state) =
     (a < length h \<and>
      (case h ! a of
         EmptyStateObj \<Rightarrow> False
       | StateObj name' v t next_addr \<Rightarrow>
           name' = name \<and> v = variable_value \<and> t = variable_type \<and>
           represents h next_addr next_state))"

section \<open>Evaluation\<close>

text \<open>
  What \<^verbatim>\<open>evaluate\<close> does after it has evaluated the operands of an operator: the
  checks on the two types, the host operation, and the value and type it returns.
  An exception of the host operation leaves \<^verbatim>\<open>evaluate\<close> as it is raised.
\<close>

definition with_type :: "host_error + val \<Rightarrow> ty \<Rightarrow> error + val \<times> ty" where
  "with_type r t = (case r of Inl err \<Rightarrow> Inl (HostError err) | Inr v \<Rightarrow> Inr (v, t))"

definition as_boolean :: "host_error + bool \<Rightarrow> error + val \<times> ty" where
  "as_boolean r = (case r of Inl err \<Rightarrow> Inl (HostError err) | Inr b \<Rightarrow> Inr (VBool b, Boolean))"

definition add_result :: "val \<Rightarrow> ty \<Rightarrow> val \<Rightarrow> ty \<Rightarrow> error + val \<times> ty" where
  "add_result left_result left_type right_result right_type =
     (if left_type \<noteq> right_type then Inl InterpTypeError
      else if left_type = Integer \<or> left_type = String \<or> left_type = FloatingPoint
      then with_type (py_add left_result right_result) left_type
      else Inl InterpTypeError)"

definition subtract_result :: "val \<Rightarrow> ty \<Rightarrow> val \<Rightarrow> ty \<Rightarrow> error + val \<times> ty" where
  "subtract_result left_result left_type right_result right_type =
     (if left_type \<noteq> right_type then Inl InterpTypeError
      else if left_type = Integer \<or> left_type = FloatingPoint
      then with_type (py_sub left_result right_result) left_type
      else Inl InterpTypeError)"

definition multiply_result :: "val \<Rightarrow> ty \<Rightarrow> val \<Rightarrow> ty \<Rightarrow> error + val \<times> ty" where
  "multiply_result left_result left_type right_result right_type =
     (if left_type \<noteq> right_type then Inl InterpTypeError
      else if left_type = Integer \<or> left_type = FloatingPoint
      then with_type (py_mul left_result right_result) left_type
      else Inl InterpTypeError)"

text \<open>
  In the \<^verbatim>\<open>Divide\<close> case the local \<^verbatim>\<open>result\<close> is assigned only under the inner
  \<^verbatim>\<open>if\<close>; returning it unassigned would raise the host's \<^verbatim>\<open>UnboundLocalError\<close>.
\<close>

definition divide_result :: "val \<Rightarrow> ty \<Rightarrow> val \<Rightarrow> ty \<Rightarrow> error + val \<times> ty" where
  "divide_result left_result left_type right_result right_type =
     (if left_type \<noteq> right_type then Inl InterpTypeError
      else if py_eq right_result (VInt 0) \<or> py_eq right_result (VFloat (Finite False 0 0))
      then Inl InterpMathError
      else (case left_type of
              Integer \<Rightarrow>
                (if py_ne right_result (VInt 0) \<or> py_ne right_result (VFloat (Finite False 0 0))
                 then (case py_truediv left_result right_result of
                         Inl err \<Rightarrow> Inl (HostError err)
                       | Inr q \<Rightarrow>
                           (case int_of_float q of
                              Inl err \<Rightarrow> Inl (HostError err)
                            | Inr i \<Rightarrow> Inr (VInt i, left_type)))
                 else Inl (HostError UnboundLocalError))
            | FloatingPoint \<Rightarrow>
                (if py_ne right_result (VInt 0) \<or> py_ne right_result (VFloat (Finite False 0 0))
                 then (case py_truediv left_result right_result of
                         Inl err \<Rightarrow> Inl (HostError err)
                       | Inr q \<Rightarrow> Inr (VFloat q, left_type))
                 else Inl (HostError UnboundLocalError))
            | _ \<Rightarrow> Inl InterpTypeError))"

text \<open>Python's \<^verbatim>\<open>a and b\<close> is \<^verbatim>\<open>b\<close> when \<^verbatim>\<open>a\<close> is true, else \<^verbatim>\<open>a\<close>; dually for \<^verbatim>\<open>or\<close>.\<close>

definition and_result :: "val \<Rightarrow> ty \<Rightarrow> val \<Rightarrow> ty \<Rightarrow> error + val \<times> ty" where
  "and_result left_value left_type right_value right_type =
     (if left_type \<noteq> right_type then Inl InterpTypeError
      else (case left_type of
              Boolean \<Rightarrow> Inr (if truthy left_value then right_value else left_value, left_type)
            | _ \<Rightarrow> Inl InterpTypeError))"

definition or_result :: "val \<Rightarrow> ty \<Rightarrow> val \<Rightarrow> ty \<Rightarrow> error + val \<times> ty" where
  "or_result left_value left_type right_value right_type =
     (if left_type \<noteq> right_type then Inl InterpTypeError
      else (case left_type of
              Boolean \<Rightarrow> Inr (if truthy left_value then left_value else right_value, left_type)
            | _ \<Rightarrow> Inl InterpTypeError))"

definition not_result :: "val \<Rightarrow> ty \<Rightarrow> error + val \<times> ty" where
  "not_result expr_value expr_type =
     (case expr_type of
        Boolean \<Rightarrow> Inr (VBool (\<not> truthy expr_value), expr_type)
      | _ \<Rightarrow> Inl InterpTypeError)"

definition lt_result :: "val \<Rightarrow> ty \<Rightarrow> val \<Rightarrow> ty \<Rightarrow> error + val \<times> ty" where
  "lt_result left_value left_type right_value right_type =
     (if left_type \<noteq> right_type then Inl InterpTypeError
      else (case left_type of
              Unit \<Rightarrow> Inr (VBool False, Boolean)
            | _ \<Rightarrow> as_boolean (py_lt left_value right_value)))"

definition lte_result :: "val \<Rightarrow> ty \<Rightarrow> val \<Rightarrow> ty \<Rightarrow> error + val \<times> ty" where
  "lte_result left_value left_type right_value right_type =
     (if left_type \<noteq> right_type then Inl InterpTypeError
      else (case left_type of
              Unit \<Rightarrow> Inr (VBool True, Boolean)
            | _ \<Rightarrow> as_boolean (py_le left_value right_value)))"

definition gt_result :: "val \<Rightarrow> ty \<Rightarrow> val \<Rightarrow> ty \<Rightarrow> error + val \<times> ty" where
  "gt_result left_value left_type right_value right_type =
     (if left_type \<noteq> right_type then Inl InterpTypeError
      else (case left_type of
              Unit \<Rightarrow> Inr (VBool False, Boolean)
            | _ \<Rightarrow> as_boolean (py_gt left_value right_value)))"

definition gte_result :: "val \<Rightarrow> ty \<Rightarrow> val \<Rightarrow> ty \<Rightarrow> error + val \<times> ty" where
  "gte_result left_value left_type right_value right_type =
     (if left_type \<noteq> right_type then Inl InterpTypeError
      else (case left_type of
              Unit \<Rightarrow> Inr (VBool True, Boolean)
            | _ \<Rightarrow> as_boolean (py_ge left_value right_value)))"

definition eq_result :: "val \<Rightarrow> ty \<Rightarrow> val \<Rightarrow> ty \<Rightarrow> error + val \<times> ty" where
  "eq_result left_value left_type right_value right_type =
     (if left_type \<noteq> right_type then Inl InterpTypeError
      else (case left_type of
              Unit \<Rightarrow> Inr (VBool True, Boolean)
            | _ \<Rightarrow> Inr (VBool (py_eq left_value right_value), Boolean)))"

definition ne_result :: "val \<Rightarrow> ty \<Rightarrow> val \<Rightarrow> ty \<Rightarrow> error + val \<times> ty" where
  "ne_result left_value left_type right_value right_type =
     (if left_type \<noteq> right_type then Inl InterpTypeError
      else (case left_type of
              Unit \<Rightarrow> Inr (VBool False, Boolean)
            | _ \<Rightarrow> Inr (VBool (py_ne left_value right_value), Boolean)))"

text \<open>
  The \<^verbatim>\<open>Assign\<close> case after its value has been evaluated: the target is looked up in
  the state that evaluation returned, and a binding of another type is an error.
\<close>

definition assign_result :: "string \<Rightarrow> val \<Rightarrow> ty \<Rightarrow> state \<Rightarrow> error + val \<times> ty \<times> state" where
  "assign_result variable_name value_result value_type new_state =
     (let variable_type =
            (case get_value new_state variable_name of
               None \<Rightarrow> None
             | Some (_, variable_type) \<Rightarrow> Some variable_type)
      in if Some value_type \<noteq> variable_type \<and> variable_type \<noteq> None
         then Inl InterpTypeError
         else Inr (value_result, value_type,
                   set_value new_state variable_name value_result value_type))"

text \<open>
  The result of an evaluation: \<open>None\<close> when a \<^verbatim>\<open>while\<close> loop has not ended within
  the iterations allowed, \<open>Some (Inl err)\<close> when \<open>err\<close> is raised, and
  \<open>Some (Inr (value, type, state))\<close> when the triple is returned.
\<close>

type_synonym outcome = "(error + val \<times> ty \<times> state) option"

definition in_state :: "error + val \<times> ty \<Rightarrow> state \<Rightarrow> outcome" where
  "in_state r new_state =
     Some (case r of Inl err \<Rightarrow> Inl err | Inr (v, t) \<Rightarrow> Inr (v, t, new_state))"

text \<open>
  \<^verbatim>\<open>evaluate(expression, state)\<close>, with the \<^verbatim>\<open>for\<close> loop of the
  \<^verbatim>\<open>Sequence\<close>/\<^verbatim>\<open>Program\<close> case and the \<^verbatim>\<open>while\<close> loop of the \<^verbatim>\<open>While\<close> case as
  functions of their own. \<open>for_exprs\<close> carries the locals \<^verbatim>\<open>value\<close> and \<^verbatim>\<open>expr_type\<close>,
  which have no value before the first iteration. \<open>fuel\<close> bounds the iterations of
  a \<^verbatim>\<open>while\<close> loop, which may run forever: each iteration evaluates the body and
  the condition with one unit less. What \<^verbatim>\<open>Print\<close> writes to the standard output is
  not part of the result and is not modelled.
\<close>

fun evaluate :: "nat \<Rightarrow> expr \<Rightarrow> state \<Rightarrow> outcome"
  and for_exprs :: "nat \<Rightarrow> expr list \<Rightarrow> (val \<times> ty) option \<Rightarrow> state \<Rightarrow> outcome"
  and while_loop :: "nat \<Rightarrow> expr \<Rightarrow> expr \<Rightarrow> val \<Rightarrow> ty \<Rightarrow> state \<Rightarrow> outcome"
where
  "evaluate fuel Ren state = Some (Inr (VNone, Unit, state))"
| "evaluate fuel (IntLiteral l) state = Some (Inr (VInt l, Integer, state))"
| "evaluate fuel (FloatingPointLiteral l) state = Some (Inr (VFloat l, FloatingPoint, state))"
| "evaluate fuel (StringLiteral l) state = Some (Inr (VStr l, String, state))"
| "evaluate fuel (BooleanLiteral l) state = Some (Inr (VBool l, Boolean, state))"
| "evaluate fuel (Print to_print) state =
     (case evaluate fuel to_print state of
        None \<Rightarrow> None
      | Some (Inl err) \<Rightarrow> Some (Inl err)
      | Some (Inr (printable_value, printable_type, new_state)) \<Rightarrow>
          Some (Inr (printable_value, printable_type, new_state)))"
| "evaluate fuel (Sequence exprs) state = for_exprs fuel exprs None state"
| "evaluate fuel (Program exprs) state = for_exprs fuel exprs None state"
| "evaluate fuel (Variable variable_name) state =
     (case get_value state variable_name of
        None \<Rightarrow> Some (Inl InterpSyntaxError)
      | Some (variable_value, variable_type) \<Rightarrow>
          Some (Inr (variable_value, variable_type, state)))"
| "evaluate fuel (Assign variable_name value) state =
     (case evaluate fuel value state of
        None \<Rightarrow> None
      | Some (Inl err) \<Rightarrow> Some (Inl err)
      | Some (Inr (value_result, value_type, new_state)) \<Rightarrow>
          Some (assign_result variable_name value_result value_type new_state))"
| "evaluate fuel (Add left right) state =
     (case evaluate fuel left state of
        None \<Rightarrow> None
      | Some (Inl err) \<Rightarrow> Some (Inl err)
      | Some (Inr (left_result, left_type, new_state)) \<Rightarrow>
          (case evaluate fuel right new_state of
             None \<Rightarrow> None
           | Some (Inl err) \<Rightarrow> Some (Inl err)
           | Some (Inr (right_result, right_type, new_state)) \<Rightarrow>
               in_state (add_result left_result left_type right_result right_type) new_state))"
| "evaluate fuel (Subtract left right) state =
     (case evaluate fuel left state of
        None \<Rightarrow> None
      | Some (Inl err) \<Rightarrow> Some (Inl err)
      | Some (Inr (left_result, left_type, new_state)) \<Rightarrow>
          (case evaluate fuel right new_state of
             None \<Rightarrow> None
           | Some (Inl err) \<Rightarrow> Some (Inl err)
           | Some (Inr (right_result, right_type, new_state)) \<Rightarrow>
               in_state (subtract_result left_result left_type right_result right_type) new_state))"
| "evaluate fuel (Multiply left right) state =
     (case evaluate fuel left state of
        None \<Rightarrow> None
      | Some (Inl err) \<Rightarrow> Some (Inl err)
      | Some (Inr (left_result, left_type, new_state)) \<Rightarrow>
          (case evaluate fuel right new_state of
             None \<Rightarrow> None
           | Some (Inl err) \<Rightarrow> Some (Inl err)
           | Some (Inr (right_result, right_type, new_state)) \<Rightarrow>
               in_state (multiply_result left_result left_type right_result right_type) new_state))"
| "evaluate fuel (Divide left right) state =
     (case evaluate fuel left state of
        None \<Rightarrow> None
      | Some (Inl err) \<Rightarrow> Some (Inl err)
      | Some (Inr (left_result, left_type, new_state)) \<Rightarrow>
          (case evaluate fuel right new_state of
             None \<Rightarrow> None
           | Some (Inl err) \<Rightarrow> Some (Inl err)
           | Some (Inr (right_result, right_type, new_state)) \<Rightarrow>
               in_state (divide_result left_result left_type right_result right_type) new_state))"
| "evaluate fuel (And left right) state =
     (case evaluate fuel left state of
        None \<Rightarrow> None
      | Some (Inl err) \<Rightarrow> Some (Inl err)
      | Some (Inr (left_value, left_type, new_state)) \<Rightarrow>
          (case evaluate fuel right new_state of
             None \<Rightarrow> None
           | Some (Inl err) \<Rightarrow> Some (Inl err)
           | Some (Inr (right_value, right_type, new_state)) \<Rightarrow>
               in_state (and_result left_value left_type right_value right_type) new_state))"
| "evaluate fuel (Or left right) state =
     (case evaluate fuel left state of
        None \<Rightarrow> None
      | Some (Inl err) \<Rightarrow> Some (Inl err)
      | Some (Inr (left_value, left_type, new_state)) \<Rightarrow>
          (case evaluate fuel right new_state of
             None \<Rightarrow> None
           | Some (Inl err) \<Rightarrow> Some (Inl err)
           | Some (Inr (right_value, right_type, new_state)) \<Rightarrow>
               in_state (or_result left_value left_type right_value right_type) new_state))"
| "evaluate fuel (Not_expr expr) state =
     (case evaluate fuel expr state of
        None \<Rightarrow> None
      | Some (Inl err) \<Rightarrow> Some (Inl err)
      | Some (Inr (expr_value, expr_type, new_state)) \<Rightarrow>
          in_state (not_result expr_value expr_type) new_state)"
| "evaluate fuel (If_expr condition true false) state =
     (case evaluate fuel condition state of
        None \<Rightarrow> None
      | Some (Inl err) \<Rightarrow> Some (Inl err)
      | Some (Inr (condition_value, condition_type, new_state)) \<Rightarrow>
          (case condition_type of
             Boolean \<Rightarrow>
               (if truthy condition_value then evaluate fuel true new_state
                else evaluate fuel false new_state)
           | _ \<Rightarrow> Some (Inl InterpTypeError)))"
| "evaluate fuel (Lt left right) state =
     (case evaluate fuel left state of
        None \<Rightarrow> None
      | Some (Inl err) \<Rightarrow> Some (Inl err)
      | Some (Inr (left_value, left_type, new_state)) \<Rightarrow>
          (case evaluate fuel right new_state of
             None \<Rightarrow> None
           | Some (Inl err) \<Rightarrow> Some (Inl err)
           | Some (Inr (right_value, right_type, new_state)) \<Rightarrow>
               in_state (lt_result left_value left_type right_value right_type) new_state))"
| "evaluate fuel (Lte left right) state =
     (case evaluate fuel left state of
        None \<Rightarrow> None
      | Some (Inl err) \<Rightarrow> Some (Inl err)
      | Some (Inr (left_value, left_type, new_state)) \<Rightarrow>
          (case evaluate fuel right new_state of
             None \<Rightarrow> None
           | Some (Inl err) \<Rightarrow> Some (Inl err)
           | Some (Inr (right_value, right_type, new_state)) \<Rightarrow>
               in_state (lte_result left_value left_type right_value right_type) new_state))"
| "evaluate fuel (Gt left right) state =
     (case evaluate fuel left state of
        None \<Rightarrow> None
      | Some (Inl err) \<Rightarrow> Some (Inl err)
      | Some (Inr (left_value, left_type, new_state)) \<Rightarrow>
          (case evaluate fuel right new_state of
             None \<Rightarrow> None
           | Some (Inl err) \<Rightarrow> Some (Inl err)
           | Some (Inr (right_value, right_type, new_state)) \<Rightarrow>
               in_state (gt_result left_value left_type right_value right_type) new_state))"
| "evaluate fuel (Gte left right) state =
     (case evaluate fuel left state of
        None \<Rightarrow> None
      | Some (Inl err) \<Rightarrow> Some (Inl err)
      | Some (Inr (left_value, left_type, new_state)) \<Rightarrow>
          (case evaluate fuel right new_state of
             None \<Rightarrow> None
           | Some (Inl err) \<Rightarrow> Some (Inl err)
           | Some (Inr (right_value, right_type, new_state)) \<Rightarrow>
               in_state (gte_result left_value left_type right_value right_type) new_state))"
| "evaluate fuel (Eq left right) state =
     (case evaluate fuel left state of
        None \<Rightarrow> None
      | Some (Inl err) \<Rightarrow> Some (Inl err)
      | Some (Inr (left_value, left_type, new_state)) \<Rightarrow>
          (case evaluate fuel right new_state of
             None \<Rightarrow> None
           | Some (Inl err) \<Rightarrow> Some (Inl err)
           | Some (Inr (right_value, right_type, new_state)) \<Rightarrow>
               in_state (eq_result left_value left_type right_value right_type) new_state))"
| "evaluate fuel (Ne left right) state =
     (case evaluate fuel left state of
        None \<Rightarrow> None
      | Some (Inl err) \<Rightarrow> Some (Inl err)
      | Some (Inr (left_value, left_type, new_state)) \<Rightarrow>
          (case evaluate fuel right new_state of
             None \<Rightarrow> None
           | Some (Inl err) \<Rightarrow> Some (Inl err)
           | Some (Inr (right_value, right_type, new_state)) \<Rightarrow>
               in_state (ne_result left_value left_type right_value right_type) new_state))"
| "evaluate fuel (While condition body) state =
     (case evaluate fuel condition state of
        None \<Rightarrow> None
      | Some (Inl err) \<Rightarrow> Some (Inl err)
      | Some (Inr (condition_value, condition_type, new_state)) \<Rightarrow>
          (case condition_type of
             Boolean \<Rightarrow> while_loop fuel condition body condition_value condition_type new_state
           | _ \<Rightarrow> Some (Inl InterpTypeError)))"
| "evaluate fuel Unhandled state = Some (Inl InterpSyntaxError)"
| "for_exprs fuel [] locals state =
     (case locals of
        None \<Rightarrow> Some (Inl (HostError UnboundLocalError))
      | Some (value, expr_type) \<Rightarrow> Some (Inr (value, expr_type, state)))"
| "for_exprs fuel (expr # exprs) locals state =
     (case evaluate fuel expr state of
        None \<Rightarrow> None
      | Some (Inl err) \<Rightarrow> Some (Inl err)
      | Some (Inr (value, expr_type, state)) \<Rightarrow>
          for_exprs fuel exprs (Some (value, expr_type)) state)"
| "while_loop fuel condition body condition_value condition_type new_state =
     (if truthy condition_value then
        (case fuel of
           0 \<Rightarrow> None
         | Suc fuel' \<Rightarrow>
             (case evaluate fuel' body new_state of
                None \<Rightarrow> None
              | Some (Inl err) \<Rightarrow> Some (Inl err)
              | Some (Inr (body_value, body_type, new_state)) \<Rightarrow>
                  (case evaluate fuel' condition new_state of
                     None \<Rightarrow> None
                   | Some (Inl err) \<Rightarrow> Some (Inl err)
                   | Some (Inr (condition_value, condition_type, new_state)) \<Rightarrow>
                       while_loop fuel' condition body condition_value condition_type
                         new_state)))
      else Some (Inr (VBool False, condition_type, new_state)))"

text \<open>\<^verbatim>\<open>run_stimpl(program)\<close> without its debug output.\<close>

definition run_stimpl :: "nat \<Rightarrow> expr \<Rightarrow> outcome" where
  "run_stimpl fuel program = evaluate fuel program EmptyState"

text \<open>
  Every name bound in \<open>s\<close> is bound in \<open>s'\<close> with the same type.
\<close>

definition keeps_types :: "state \<Rightarrow> state \<Rightarrow> bool" where
  "keeps_types s s' =
     (\<forall>x v t. get_value s x = Some (v, t) \<longrightarrow> (\<exists>v'. get_value s' x = Some (v', t)))"

declare while_loop.simps [simp del] bitlen.simps [simp del] normalise.simps [simp del]

section \<open>The state: lookup and extension\<close>

lemma get_value_at_represents:
  "represents h a s \<Longrightarrow> get_value_at h a x = Some (get_value s x)"
proof (induction s arbitrary: a)
  case EmptyState
  then show ?case by (subst get_value_at.simps) simp
next
  case (State name v t nxt)
  then show ?case
    by (subst get_value_at.simps) (auto split: state_obj.splits)
qed

lemma represents_append:
  "represents h a s \<Longrightarrow> represents (h @ h') a s"
  by (induction s arbitrary: a) (auto simp: nth_append split: state_obj.splits)

lemma represents_set_value_at:
  "represents h a s \<Longrightarrow> set_value_at h a n v t = (h', a') \<Longrightarrow>
   represents h' a' (set_value s n v t) \<and> represents h' a s"
  by (auto simp: set_value_at_def new_obj_def represents_append)

lemma new_EmptyState_represents:
  "new_EmptyState h = (h', a) \<Longrightarrow> represents h' a EmptyState"
  by (auto simp: new_EmptyState_def new_obj_def)

lemma copy_at_represents:
  "represents h a s \<Longrightarrow> \<exists>h' a'. copy_at h a = Some (h', a') \<and> represents h' a' (copy s)
     \<and> represents h' a s \<and> copy s = s"
  by (cases s)
     (auto simp: copy_at_def new_obj_def represents_append nth_append split: state_obj.splits)

lemma get_value_unbound: "x \<notin> bound_names s \<Longrightarrow> get_value s x = None"
  by (induction s) auto

lemma get_value_bound: "x \<in> bound_names s \<Longrightarrow> \<exists>v t. get_value s x = Some (v, t)"
  by (induction s) auto

text \<open>
  Claim C1. Let the handle \<open>e\<close> stand for a state \<open>s\<close>, and let \<^verbatim>\<open>e.set_value(n, v, t)\<close>
  return the handle \<open>e'\<close>. Looking \<open>n\<close> up through \<open>e'\<close> returns \<open>(v, t)\<close>; looking
  another name \<open>m\<close> up through \<open>e'\<close> returns what it returns through \<open>e\<close>; a name
  bound nowhere in the chain is absent; and the old handle \<open>e\<close> gives the same results
  after the call as before it. The same equations hold of the chains as values.
\<close>

theorem state_lookup_extend:
  assumes "represents h e s" and "set_value_at h e n v t = (h', e')"
  shows "get_value_at h' e' n = Some (Some (v, t))
       \<and> (m \<noteq> n \<longrightarrow> get_value_at h' e' m = get_value_at h e m)
       \<and> (m \<notin> bound_names s \<longrightarrow> get_value_at h e m = Some None)
       \<and> get_value_at h' e m = get_value_at h e m
       \<and> get_value (set_value s n v t) n = Some (v, t)
       \<and> (m \<noteq> n \<longrightarrow> get_value (set_value s n v t) m = get_value s m)
       \<and> (m \<notin> bound_names s \<longrightarrow> get_value s m = None)"
proof -
  from assms have new: "represents h' e' (set_value s n v t)" and old: "represents h' e s"
    using represents_set_value_at by blast+
  have at_new: "get_value_at h' e' x = Some (get_value (set_value s n v t) x)" for x
    using new by (rule get_value_at_represents)
  have at_old: "get_value_at h' e x = Some (get_value s x)" for x
    using old by (rule get_value_at_represents)
  have before: "get_value_at h e x = Some (get_value s x)" for x
    using assms(1) by (rule get_value_at_represents)
  show ?thesis
    by (simp add: at_new at_old before get_value_unbound)
qed

theorem state_lookup_extend_witness:
  "represents [EmptyStateObj, StateObj ''x'' (VInt 1) Integer 0] 1
     (State ''x'' (VInt 1) Integer EmptyState)
   \<and> set_value_at [EmptyStateObj, StateObj ''x'' (VInt 1) Integer 0] 1 ''y'' (VBool True) Boolean
       = ([EmptyStateObj, StateObj ''x'' (VInt 1) Integer 0, StateObj ''y'' (VBool True) Boolean 1], 2)
   \<and> get_value_at
         [EmptyStateObj, StateObj ''x'' (VInt 1) Integer 0, StateObj ''y'' (VBool True) Boolean 1]
         2 ''y'' = Some (Some (VBool True, Boolean))
   \<and> get_value_at
         [EmptyStateObj, StateObj ''x'' (VInt 1) Integer 0, StateObj ''y'' (VBool True) Boolean 1]
         2 ''x'' = Some (Some (VInt 1, Integer))
   \<and> get_value_at
         [EmptyStateObj, StateObj ''x'' (VInt 1) Integer 0, StateObj ''y'' (VBool True) Boolean 1]
         1 ''y'' = Some None
   \<and> get_value_at [EmptyStateObj, StateObj ''x'' (VInt 1) Integer 0] 1 ''y'' = Some None"
proof -
  let ?h = "[EmptyStateObj, StateObj ''x'' (VInt 1) Integer 0]"
  let ?s = "State ''x'' (VInt 1) Integer EmptyState"
  let ?h' = "[EmptyStateObj, StateObj ''x'' (VInt 1) Integer 0, StateObj ''y'' (VBool True) Boolean 1]"
  have r: "represents ?h 1 ?s" by simp
  have e: "set_value_at ?h 1 ''y'' (VBool True) Boolean = (?h', 2)"
    by (simp add: set_value_at_def new_obj_def)
  have x: "get_value_at ?h 1 ''x'' = Some (Some (VInt 1, Integer))"
    by (simp add: get_value_at.simps)
  show ?thesis
    using r e x state_lookup_extend [OF r e, of "''x''"] state_lookup_extend [OF r e, of "''y''"]
    by simp
qed

section \<open>Evaluation: what a returned triple tells\<close>

lemma bind_cases:
  assumes "(case r of None \<Rightarrow> None | Some (Inl err) \<Rightarrow> Some (Inl err)
            | Some (Inr (a, b, c)) \<Rightarrow> k a b c) = Some (Inr res)"
  obtains a b c where "r = Some (Inr (a, b, c))" and "k a b c = Some (Inr res)"
  using assms by (cases r) (auto split: sum.splits)

lemma in_state_cases:
  assumes "in_state r s2 = Some (Inr (v, t, s'))"
  obtains "r = Inr (v, t)" and "s' = s2"
  using assms by (auto simp: in_state_def split: sum.splits)

lemma assign_result_keeps_types:
  assumes "assign_result x v t s1 = Inr (v', t', s')"
  shows "keeps_types s1 s'"
proof -
  from assms have s': "s' = State x v t s1"
    and ok: "get_value s1 x = None \<or> (\<exists>v0. get_value s1 x = Some (v0, t))"
    by (auto simp: assign_result_def Let_def split: if_splits option.splits)
  show ?thesis unfolding keeps_types_def s' using ok by auto
qed

text \<open>
  No evaluation changes the type of a bound name: the only case that extends the
  state is \<open>Assign\<close>, and it refuses a binding of another type.
\<close>

lemma evaluate_keeps_types_from:
  shows "\<And>v t s'. evaluate fuel e s = Some (Inr (v, t, s')) \<Longrightarrow>
           keeps_types s0 s \<Longrightarrow> keeps_types s0 s'"
    and "\<And>v t s'. for_exprs fuel es loc s = Some (Inr (v, t, s')) \<Longrightarrow>
           keeps_types s0 s \<Longrightarrow> keeps_types s0 s'"
    and "\<And>v t s'. while_loop fuel c b cv ct s = Some (Inr (v, t, s')) \<Longrightarrow>
           keeps_types s0 s \<Longrightarrow> keeps_types s0 s'"
proof (induction fuel e s and fuel es loc s and fuel c b cv ct s
       rule: evaluate_for_exprs_while_loop.induct)
  case (6 fuel to_print state)
  show ?case using "6.IH" "6.prems"
    by (auto split: option.splits sum.splits)
next
  case (9 fuel variable_name state)
  then show ?case by (auto split: option.splits)
next
  case (10 fuel variable_name "value" state)
  from "10.prems"(1) obtain v1 t1 s1 where
    l: "evaluate fuel value state = Some (Inr (v1, t1, s1))" and
    a: "assign_result variable_name v1 t1 s1 = Inr (v, t, s')"
    by (auto elim!: bind_cases)
  from "10.IH" [OF l "10.prems"(2)] assign_result_keeps_types [OF a] show ?case
    unfolding keeps_types_def by blast
next
  case (18 fuel condition true false state)
  show ?case using "18.IH" "18.prems"
    by (fastforce elim!: bind_cases split: ty.splits if_splits)
next
  case (25 fuel condition body state)
  show ?case using "25.IH" "25.prems"
    by (fastforce elim!: bind_cases split: ty.splits)
next
  case (27 fuel locals state)
  then show ?case by (auto split: option.splits)
next
  case (28 fuel expr exprs locals state)
  show ?case using "28.IH" "28.prems"
    by (fastforce elim!: bind_cases)
next
  case (29 fuel condition body condition_value condition_type new_state)
  show ?case
  proof (cases "truthy condition_value")
    case False
    with "29.prems" show ?thesis by (simp add: while_loop.simps)
  next
    case True
    with "29.prems"(1) obtain k where k: "fuel = Suc k"
      by (cases fuel) (auto simp: while_loop.simps)
    from "29.prems"(1) True k obtain bv bt s1 cv' ct' s2 where
      b: "evaluate k body new_state = Some (Inr (bv, bt, s1))" and
      c: "evaluate k condition s1 = Some (Inr (cv', ct', s2))" and
      w: "while_loop k condition body cv' ct' s2 = Some (Inr (v, t, s'))"
      by (subst (asm) while_loop.simps) (auto elim!: bind_cases)
    from "29.IH"(1) [OF True k b "29.prems"(2)] have 1: "keeps_types s0 s1" .
    from "29.IH"(2) [OF True k b refl refl refl c 1] have 2: "keeps_types s0 s2" .
    from "29.IH"(3) [OF True k b refl refl refl c refl refl refl w 2] show ?thesis .
  qed
qed (fastforce elim!: bind_cases in_state_cases)+

lemma evaluate_keeps_types:
  "evaluate fuel e s = Some (Inr (v, t, s')) \<Longrightarrow> keeps_types s s'"
  using evaluate_keeps_types_from(1) [of fuel e s v t s' s] by (simp add: keeps_types_def)

text \<open>
  More fuel never changes a result: what an evaluation returns or raises within
  \<open>fuel\<close> iterations, it returns or raises within \<open>fuel + k\<close>.
\<close>

lemma bind_mono:
  assumes "(case r of None \<Rightarrow> None | Some (Inl err) \<Rightarrow> Some (Inl err)
            | Some (Inr (a, b, c)) \<Rightarrow> k a b c) = Some res"
    and "\<And>x. r = Some x \<Longrightarrow> r' = Some x"
    and "\<And>a b c. r = Some (Inr (a, b, c)) \<Longrightarrow> k a b c = Some res \<Longrightarrow> k' a b c = Some res"
  shows "(case r' of None \<Rightarrow> None | Some (Inl err) \<Rightarrow> Some (Inl err)
            | Some (Inr (a, b, c)) \<Rightarrow> k' a b c) = Some res"
  using assms by (cases r) (auto split: sum.splits)

lemma more_fuel:
  shows "\<And>r. evaluate fuel e s = Some r \<Longrightarrow> evaluate (fuel + k) e s = Some r"
    and "\<And>r. for_exprs fuel es loc s = Some r \<Longrightarrow> for_exprs (fuel + k) es loc s = Some r"
    and "\<And>r. while_loop fuel c b cv ct s = Some r \<Longrightarrow>
           while_loop (fuel + k) c b cv ct s = Some r"
proof (induction fuel e s and fuel es loc s and fuel c b cv ct s
       rule: evaluate_for_exprs_while_loop.induct)
  case (6 fuel to_print state)
  from "6.prems" "6.IH" show ?case
    by (auto split: option.splits sum.splits)
next
  case (10 fuel variable_name "value" state)
  from "10.prems" show ?case
    apply (simp only: evaluate.simps)
    apply (erule bind_mono)
     apply (erule "10.IH")
    apply assumption
    done
next
  case (17 fuel expr state)
  from "17.prems" show ?case
    apply (simp only: evaluate.simps)
    apply (erule bind_mono)
     apply (erule "17.IH")
    apply assumption
    done
next
  case (18 fuel condition true false state)
  from "18.prems" show ?case
    apply (simp only: evaluate.simps)
    apply (erule bind_mono)
     apply (erule "18.IH"(1))
    apply (auto split: ty.splits if_splits dest: "18.IH"(2,3))
    done
next
  case (25 fuel condition body state)
  from "25.prems" show ?case
    apply (simp only: evaluate.simps)
    apply (erule bind_mono)
     apply (erule "25.IH"(1))
    apply (auto split: ty.splits dest: "25.IH"(2))
    done
next
  case (28 fuel expr exprs locals state)
  from "28.prems" show ?case
    apply (simp only: for_exprs.simps)
    apply (erule bind_mono)
     apply (erule "28.IH"(1))
    apply (erule "28.IH"(2) [OF _ refl refl refl])
    apply assumption
    done
next
  case (29 fuel condition body condition_value condition_type new_state)
  show ?case
  proof (cases "truthy condition_value")
    case False
    with "29.prems" show ?thesis by (simp add: while_loop.simps)
  next
    case True
    with "29.prems" obtain n where n: "fuel = Suc n"
      by (cases fuel) (auto simp: while_loop.simps)
    from "29.prems" True n
    have "(case evaluate n body new_state of None \<Rightarrow> None | Some (Inl err) \<Rightarrow> Some (Inl err)
           | Some (Inr (body_value, body_type, new_state)) \<Rightarrow>
               (case evaluate n condition new_state of None \<Rightarrow> None
                | Some (Inl err) \<Rightarrow> Some (Inl err)
                | Some (Inr (condition_value, condition_type, new_state)) \<Rightarrow>
                    while_loop n condition body condition_value condition_type new_state))
          = Some r"
      by (subst (asm) while_loop.simps) simp
    then have "(case evaluate (n + k) body new_state of None \<Rightarrow> None
           | Some (Inl err) \<Rightarrow> Some (Inl err)
           | Some (Inr (body_value, body_type, new_state)) \<Rightarrow>
               (case evaluate (n + k) condition new_state of None \<Rightarrow> None
                | Some (Inl err) \<Rightarrow> Some (Inl err)
                | Some (Inr (condition_value, condition_type, new_state)) \<Rightarrow>
                    while_loop (n + k) condition body condition_value condition_type new_state))
          = Some r"
      apply (rule bind_mono)
       apply (erule "29.IH"(1) [OF True n])
      apply (erule bind_mono)
       apply (erule "29.IH"(2) [OF True n _ refl refl refl])
       apply assumption
      apply (erule "29.IH"(3) [OF True n _ refl refl refl _ refl refl refl])
       apply assumption
      apply assumption
      done
    with True n show ?thesis
      by (subst while_loop.simps) simp
  qed
qed (simp_all only: evaluate.simps for_exprs.simps,
     (erule bind_mono, blast, erule bind_mono, blast, assumption)+)

section \<open>Assignment\<close>

text \<open>
  Claim C2. Let the value expression \<open>e\<close> of \<open>Assign x e\<close> evaluate to \<open>(v, t)\<close> in the
  state \<open>s1\<close>. If \<open>x\<close> has a binding of another type (in \<open>s1\<close>, where the interpreter
  looks, or already in the starting state) the assignment raises the type error. If
  \<open>x\<close> has no binding in \<open>s1\<close> the assignment succeeds whatever \<open>t\<close> is, and if it has
  one of type \<open>t\<close> it succeeds too; the next lookup of \<open>x\<close> then returns \<open>(v, t)\<close>.
  And no evaluation, of any expression, changes the type of a name that was bound
  when it started.
\<close>

theorem assign_type_fixing:
  assumes "evaluate fuel e s = Some (Inr (v, t, s1))"
  shows "(\<forall>v0 t0. get_value s1 x = Some (v0, t0) \<and> t0 \<noteq> t \<longrightarrow>
            evaluate fuel (Assign x e) s = Some (Inl InterpTypeError))
       \<and> (\<forall>v0 t0. get_value s x = Some (v0, t0) \<and> t0 \<noteq> t \<longrightarrow>
            evaluate fuel (Assign x e) s = Some (Inl InterpTypeError))
       \<and> (get_value s1 x = None \<longrightarrow>
            evaluate fuel (Assign x e) s = Some (Inr (v, t, set_value s1 x v t)))
       \<and> (\<forall>v0. get_value s1 x = Some (v0, t) \<longrightarrow>
            evaluate fuel (Assign x e) s = Some (Inr (v, t, set_value s1 x v t)))
       \<and> get_value (set_value s1 x v t) x = Some (v, t)
       \<and> (\<forall>y v0 t0. get_value s y = Some (v0, t0) \<longrightarrow> (\<exists>v1. get_value s1 y = Some (v1, t0)))"
proof -
  have keeps: "keeps_types s s1"
    using assms by (rule evaluate_keeps_types)
  have 1: "evaluate fuel (Assign x e) s = Some (Inl InterpTypeError)"
    if "get_value s1 x = Some (v0, t0)" "t0 \<noteq> t" for v0 t0
    using that assms by (simp add: assign_result_def)
  have 2: "evaluate fuel (Assign x e) s = Some (Inl InterpTypeError)"
    if "get_value s x = Some (v0, t0)" "t0 \<noteq> t" for v0 t0
  proof -
    from keeps that(1) obtain v1 where "get_value s1 x = Some (v1, t0)"
      unfolding keeps_types_def by blast
    then show ?thesis using that(2) by (rule 1)
  qed
  have 3: "evaluate fuel (Assign x e) s = Some (Inr (v, t, set_value s1 x v t))"
    if "get_value s1 x = None"
    using that assms by (simp add: assign_result_def)
  have 4: "evaluate fuel (Assign x e) s = Some (Inr (v, t, set_value s1 x v t))"
    if "get_value s1 x = Some (v0, t)" for v0
    using that assms by (simp add: assign_result_def)
  have 5: "get_value (set_value s1 x v t) x = Some (v, t)" by simp
  have 6: "\<forall>y v0 t0. get_value s y = Some (v0, t0) \<longrightarrow> (\<exists>v1. get_value s1 y = Some (v1, t0))"
    using keeps unfolding keeps_types_def by blast
  from 1 2 3 4 5 6 show ?thesis by blast
qed

theorem assign_type_fixing_witness:
  "evaluate 0 (StringLiteral ''hi'') (State ''x'' (VInt 5) Integer EmptyState)
     = Some (Inr (VStr ''hi'', String, State ''x'' (VInt 5) Integer EmptyState))
   \<and> get_value (State ''x'' (VInt 5) Integer EmptyState) ''x'' = Some (VInt 5, Integer)
   \<and> Integer \<noteq> String
   \<and> evaluate 0 (Assign ''x'' (StringLiteral ''hi'')) (State ''x'' (VInt 5) Integer EmptyState)
     = Some (Inl InterpTypeError)
   \<and> evaluate 0 (IntLiteral 2) (State ''x'' (VInt 5) Integer EmptyState)
     = Some (Inr (VInt 2, Integer, State ''x'' (VInt 5) Integer EmptyState))
   \<and> evaluate 0 (Assign ''x'' (IntLiteral 2)) (State ''x'' (VInt 5) Integer EmptyState)
     = Some (Inr (VInt 2, Integer,
         State ''x'' (VInt 2) Integer (State ''x'' (VInt 5) Integer EmptyState)))
   \<and> get_value (State ''x'' (VInt 2) Integer (State ''x'' (VInt 5) Integer EmptyState)) ''x''
     = Some (VInt 2, Integer)
   \<and> get_value (State ''x'' (VInt 5) Integer EmptyState) ''y'' = None
   \<and> evaluate 0 (Assign ''y'' (StringLiteral ''hi'')) (State ''x'' (VInt 5) Integer EmptyState)
     = Some (Inr (VStr ''hi'', String,
         State ''y'' (VStr ''hi'') String (State ''x'' (VInt 5) Integer EmptyState)))"
proof -
  let ?s = "State ''x'' (VInt 5) Integer EmptyState"
  have a: "evaluate 0 (StringLiteral ''hi'') ?s = Some (Inr (VStr ''hi'', String, ?s))"
    by simp
  have b: "evaluate 0 (IntLiteral 2) ?s = Some (Inr (VInt 2, Integer, ?s))"
    by simp
  show ?thesis
    using a b assign_type_fixing [OF a, of "''x''"] assign_type_fixing [OF a, of "''y''"]
      assign_type_fixing [OF b, of "''x''"]
    by simp
qed

section \<open>The while loop\<close>







text \<open>
  The check before the loop: a first condition that is not a Boolean is the type
  error.
\<close>

lemma while_first_condition_checked:
  "evaluate fuel c s = Some (Inr (cv, t, s1)) \<Longrightarrow> t \<noteq> Boolean \<Longrightarrow>
   evaluate fuel (While c b) s = Some (Inl InterpTypeError)"
  by (cases t) simp_all

text \<open>
  Claim C4 says that the type of the condition is checked again after every
  iteration. The interpreter checks it once, before the loop. Below, the condition
  is \<^verbatim>\<open>True\<close> of type Boolean while \<open>b\<close> is true and \<^verbatim>\<open>0\<close> of type Integer afterwards;
  the body sets \<open>b\<close> to false. After the first iteration the condition evaluates
  to an Integer, no error is raised, and the loop returns with the type Integer.
\<close>

theorem while_condition_checked_once:
  "evaluate 1 (While (If_expr (Variable ''b'') (BooleanLiteral True) (IntLiteral 0))
                 (Assign ''b'' (BooleanLiteral False)))
       (State ''b'' (VBool True) Boolean EmptyState)
     = Some (Inr (VBool False, Integer,
         State ''b'' (VBool False) Boolean (State ''b'' (VBool True) Boolean EmptyState)))
   \<and> evaluate 0 (If_expr (Variable ''b'') (BooleanLiteral True) (IntLiteral 0))
       (State ''b'' (VBool False) Boolean (State ''b'' (VBool True) Boolean EmptyState))
     = Some (Inr (VInt 0, Integer,
         State ''b'' (VBool False) Boolean (State ''b'' (VBool True) Boolean EmptyState)))"
  by code_simp

section \<open>Division\<close>

lemmas host_eval =
  py_truediv_def py_eq_def py_ne_def divide_result_def in_state_def float_is_zero_def
  round_to_double_def floor_log2_def round_half_even_def bitlen.simps normalise.simps
  dyadic_num_def dyadic_den_def scaled_def Let_def

text \<open>The values that Python's \<^verbatim>\<open>==\<close> finds equal to \<^verbatim>\<open>0\<close> and to \<^verbatim>\<open>0.0\<close>.\<close>


lemma py_eq_zero_float: "py_eq rv (VFloat (Finite False 0 0)) = py_eq rv (VInt 0)"
  by (cases rv) (simp_all add: py_eq_def)

lemma py_eq_zero_iff:
  "py_eq rv (VInt 0) \<longleftrightarrow> rv = VInt 0 \<or> rv = VBool False \<or> (\<exists>s e. rv = VFloat (Finite s 0 e))"
proof (cases rv)
  case (VFloat x)
  then show ?thesis by (cases x) (auto simp: py_eq_def scaled_def Let_def)
qed (auto simp: py_eq_def scaled_def Let_def)

text \<open>
  Claim C5. When both operands of \<open>Divide\<close> evaluate to values of one type and the
  right value equals \<^verbatim>\<open>0\<close> or \<^verbatim>\<open>0.0\<close>, the math error is raised, whatever the type
  is: the check comes before the branch on the type.
\<close>

theorem divide_by_zero:
  assumes "evaluate fuel left s = Some (Inr (lv, t, s1))"
    and "evaluate fuel right s1 = Some (Inr (rv, t, s2))"
    and "py_eq rv (VInt 0) \<or> py_eq rv (VFloat (Finite False 0 0))"
  shows "evaluate fuel (Divide left right) s = Some (Inl InterpMathError)"
  using assms by (simp add: divide_result_def in_state_def)

theorem divide_by_zero_witness:
  "evaluate 0 (Divide (IntLiteral 1) (IntLiteral 0)) EmptyState = Some (Inl InterpMathError)
   \<and> evaluate 0 (Divide (FloatingPointLiteral (Finite False 1 0))
                   (FloatingPointLiteral (Finite False 0 0))) EmptyState
     = Some (Inl InterpMathError)
   \<and> py_eq (VInt 0) (VInt 0) \<and> py_eq (VFloat (Finite False 0 0)) (VFloat (Finite False 0 0))"
proof -
  have z: "py_eq (VInt 0) (VInt 0)" "py_eq (VFloat (Finite False 0 0)) (VFloat (Finite False 0 0))"
    by (simp_all add: py_eq_def scaled_def)
  have 1: "evaluate 0 (Divide (IntLiteral 1) (IntLiteral 0)) EmptyState = Some (Inl InterpMathError)"
    by (rule divide_by_zero [where lv = "VInt 1" and rv = "VInt 0" and t = Integer
          and ?s1.0 = EmptyState and ?s2.0 = EmptyState]) (simp_all add: z)
  have 2: "evaluate 0 (Divide (FloatingPointLiteral (Finite False 1 0))
                   (FloatingPointLiteral (Finite False 0 0))) EmptyState
     = Some (Inl InterpMathError)"
    by (rule divide_by_zero [where lv = "VFloat (Finite False 1 0)"
          and rv = "VFloat (Finite False 0 0)" and t = FloatingPoint
          and ?s1.0 = EmptyState and ?s2.0 = EmptyState]) (simp_all add: z)
  from 1 2 z show ?thesis by blast
qed

text \<open>
  Claim C6 says that a division at a type other than Integer and FloatingPoint
  raises the type error. Not when the right value equals zero, as the Boolean
  \<^verbatim>\<open>False\<close> does: the check for zero comes first and raises the math error.
\<close>

theorem divide_boolean_by_false_counterexample:
  "evaluate 0 (BooleanLiteral True) EmptyState = Some (Inr (VBool True, Boolean, EmptyState))
   \<and> evaluate 0 (BooleanLiteral False) EmptyState = Some (Inr (VBool False, Boolean, EmptyState))
   \<and> Boolean \<noteq> Integer \<and> Boolean \<noteq> FloatingPoint
   \<and> evaluate 0 (Divide (BooleanLiteral True) (BooleanLiteral False)) EmptyState
       = Some (Inl InterpMathError)
   \<and> evaluate 0 (Divide (BooleanLiteral True) (BooleanLiteral False)) EmptyState
       \<noteq> Some (Inl InterpTypeError)"
  by (simp add: divide_result_def in_state_def py_eq_def scaled_def)

text \<open>
  Claim C6 as amended. When both operands of \<open>Divide\<close> evaluate to values of one
  type that is neither Integer nor FloatingPoint, the type error is raised unless the
  right value equals zero; then the math error is raised.
\<close>

theorem divide_unsupported_type:
  assumes "evaluate fuel left s = Some (Inr (lv, t, s1))"
    and "evaluate fuel right s1 = Some (Inr (rv, t, s2))"
    and "t \<noteq> Integer" and "t \<noteq> FloatingPoint"
  shows "evaluate fuel (Divide left right) s =
           Some (Inl (if py_eq rv (VInt 0) then InterpMathError else InterpTypeError))"
  using assms
  by (cases t) (simp_all add: divide_result_def in_state_def py_eq_zero_float)

theorem divide_unsupported_type_witness:
  "evaluate 0 (Divide (StringLiteral ''a'') (StringLiteral ''b'')) EmptyState
     = Some (Inl InterpTypeError)
   \<and> evaluate 0 (Divide (BooleanLiteral True) (BooleanLiteral True)) EmptyState
     = Some (Inl InterpTypeError)
   \<and> evaluate 0 (Divide Ren Ren) EmptyState = Some (Inl InterpTypeError)
   \<and> evaluate 0 (Divide (BooleanLiteral True) (BooleanLiteral False)) EmptyState
     = Some (Inl InterpMathError)"
proof -
  have 1: "evaluate 0 (Divide (StringLiteral ''a'') (StringLiteral ''b'')) EmptyState
     = Some (Inl InterpTypeError)"
    using divide_unsupported_type [of 0 "StringLiteral ''a''" EmptyState "VStr ''a''" String
        EmptyState "StringLiteral ''b''" "VStr ''b''" EmptyState]
    by (simp add: py_eq_def)
  have 2: "evaluate 0 (Divide (BooleanLiteral True) (BooleanLiteral True)) EmptyState
     = Some (Inl InterpTypeError)"
    using divide_unsupported_type [of 0 "BooleanLiteral True" EmptyState "VBool True" Boolean
        EmptyState "BooleanLiteral True" "VBool True" EmptyState]
    by (simp add: py_eq_def scaled_def)
  have 3: "evaluate 0 (Divide Ren Ren) EmptyState = Some (Inl InterpTypeError)"
    using divide_unsupported_type [of 0 Ren EmptyState VNone Unit EmptyState Ren VNone EmptyState]
    by (simp add: py_eq_def)
  have 4: "evaluate 0 (Divide (BooleanLiteral True) (BooleanLiteral False)) EmptyState
     = Some (Inl InterpMathError)"
    using divide_unsupported_type [of 0 "BooleanLiteral True" EmptyState "VBool True" Boolean
        EmptyState "BooleanLiteral False" "VBool False" EmptyState]
    by (simp add: py_eq_def scaled_def)
  from 1 2 3 4 show ?thesis by blast
qed

text \<open>
  What \<open>Divide\<close> computes on two Integers and on two FloatingPoints when the right
  value is not zero: for Integers the float nearest to the quotient, converted back
  to an integer; for FloatingPoints the quotient of the floats.
\<close>

lemma py_ne_zero_float: "py_ne rv (VFloat (Finite False 0 0)) = py_ne rv (VInt 0)"
  by (simp add: py_ne_def py_eq_zero_float)

lemma divide_floats:
  assumes "evaluate fuel left s = Some (Inr (VFloat x, FloatingPoint, s1))"
    and "evaluate fuel right s1 = Some (Inr (VFloat y, FloatingPoint, s2))"
    and "\<not> float_is_zero y"
  shows "evaluate fuel (Divide left right) s
           = Some (Inr (VFloat (float_div x y), FloatingPoint, s2))"
proof -
  have "\<not> py_eq (VFloat y) (VInt 0)"
    using assms(3) by (auto simp: py_eq_zero_iff float_is_zero_def)
  then show ?thesis
    using assms
    by (simp add: divide_result_def in_state_def py_eq_zero_float py_ne_def py_truediv_def)
qed

lemma divide_integers:
  assumes "evaluate fuel left s = Some (Inr (VInt i, Integer, s1))"
    and "evaluate fuel right s1 = Some (Inr (VInt j, Integer, s2))"
    and "j \<noteq> 0"
  shows "evaluate fuel (Divide left right) s =
           (case round_to_double ((i < 0) \<noteq> (j < 0)) (nat \<bar>i\<bar>) (nat \<bar>j\<bar>) of
              Infinity _ \<Rightarrow> Some (Inl (HostError OverflowError))
            | NaN \<Rightarrow> Some (Inl (HostError ValueError))
            | Finite sg m e \<Rightarrow>
                Some (Inr (VInt ((if sg then - 1 else 1) *
                                 (if 0 \<le> e then int m * 2 ^ nat e else int m div 2 ^ nat (- e))),
                           Integer, s2)))"
proof -
  have "\<not> py_eq (VInt j) (VInt 0)"
    using assms(3) by (simp add: py_eq_zero_iff)
  then show ?thesis
    using assms
    by (simp add: divide_result_def in_state_def py_eq_zero_float py_ne_def py_truediv_def
          split: pyfloat.splits)
qed

text \<open>
  For a dividend below \<open>2 ^ 53\<close> in absolute value the detour through the float is
  exact: rounding the quotient to 53 bits never reaches the next integer.
\<close>

lemma bitlen_upper: "n < 2 ^ bitlen n"
proof (induction n rule: bitlen.induct)
  case (1 n)
  show ?case
  proof (cases "n = 0")
    case True
    then show ?thesis by (simp add: bitlen.simps)
  next
    case False
    with 1 have "n div 2 < 2 ^ bitlen (n div 2)" by simp
    then have "n < 2 * 2 ^ bitlen (n div 2)" by linarith
    with False show ?thesis by (subst bitlen.simps) simp
  qed
qed

lemma bitlen_lower: "0 < n \<Longrightarrow> 2 ^ (bitlen n - 1) \<le> n"
proof (induction n rule: bitlen.induct)
  case (1 n)
  then have n: "n \<noteq> 0" by simp
  show ?case
  proof (cases "n div 2 = 0")
    case True
    with n have "n = 1" by linarith
    then show ?thesis by (simp add: bitlen.simps)
  next
    case False
    with 1 n have ih: "2 ^ (bitlen (n div 2) - 1) \<le> n div 2" by simp
    from False have "0 < bitlen (n div 2)" by (subst bitlen.simps) simp
    then have "(2::nat) ^ bitlen (n div 2) = 2 * 2 ^ (bitlen (n div 2) - 1)"
      by (cases "bitlen (n div 2)") simp_all
    with ih have "2 ^ bitlen (n div 2) \<le> n" by linarith
    with n show ?thesis by (subst bitlen.simps) simp
  qed
qed

lemma round_half_even_lower: "0 < q \<Longrightarrow> p div q \<le> round_half_even p q"
  by (simp add: round_half_even_def Let_def)

lemma round_half_even_upper: 
  assumes "0 < q" shows "2 * q * round_half_even p q \<le> 2 * p + q"
proof -
  have p: "p = q * (p div q) + p mod q" by simp
  have 1: "2 * q * (p div q) \<le> 2 * p + q"
    by (metis p add.commute mult.assoc mult_le_mono2 le_add2 trans_le_add1 le_add1)
  have 2: "2 * q * (p div q + 1) \<le> 2 * p + q" if "q \<le> 2 * (p mod q)"
  proof -
    have "2 * q * (p div q + 1) = 2 * (q * (p div q)) + 2 * q" by (simp add: algebra_simps)
    also have "\<dots> \<le> 2 * (q * (p div q)) + 2 * (p mod q) + q" using that by linarith
    also have "\<dots> = 2 * p + q" using p by linarith
    finally show ?thesis .
  qed
  show ?thesis
    using 1 2 by (auto simp: round_half_even_def Let_def)
qed

lemma floor_log2_lower:
  assumes "0 < p" and "0 < q"
  shows "(0 \<le> floor_log2 p q \<longrightarrow> q * 2 ^ nat (floor_log2 p q) \<le> p)
       \<and> (floor_log2 p q < 0 \<longrightarrow> q \<le> p * 2 ^ nat (- floor_log2 p q))"
proof -
  define k where "k = int (bitlen p) - int (bitlen q)"
  define c where "c = (if 0 \<le> k then q * 2 ^ nat k \<le> p else q \<le> p * 2 ^ nat (- k))"
  have fl: "floor_log2 p q = (if c then k else k - 1)"
    by (simp add: floor_log2_def k_def c_def Let_def)
  show ?thesis
  proof (cases c)
    case True
    then show ?thesis unfolding fl using True by (auto simp: c_def split: if_splits)
  next
    case False
    have lp: "2 ^ (bitlen p - 1) \<le> p" using assms(1) by (rule bitlen_lower)
    have uq: "q < 2 ^ bitlen q" by (rule bitlen_upper)
    have bp: "0 < bitlen p" using assms(1) by (subst bitlen.simps) simp
    have 1: "q * 2 ^ nat (k - 1) \<le> p" if "0 \<le> k - 1"
    proof -
      from that have eq: "nat (k - 1) + bitlen q = bitlen p - 1" by (simp add: k_def)
      have "q * 2 ^ nat (k - 1) \<le> 2 ^ bitlen q * 2 ^ nat (k - 1)"
        using uq by simp
      also have "\<dots> = 2 ^ (bitlen p - 1)"
        using eq by (metis add.commute power_add)
      finally show ?thesis using lp by linarith
    qed
    have 2: "q \<le> p * 2 ^ nat (- (k - 1))" if "k - 1 < 0"
    proof -
      from that bp have eq: "(bitlen p - 1) + nat (- (k - 1)) = bitlen q" by (simp add: k_def)
      have "(2::nat) ^ bitlen q = 2 ^ (bitlen p - 1) * 2 ^ nat (- (k - 1))"
        using eq by (metis power_add)
      also have "\<dots> \<le> p * 2 ^ nat (- (k - 1))"
        using lp by simp
      finally show ?thesis using uq by linarith
    qed
    show ?thesis unfolding fl using False 1 2 by auto
  qed
qed

lemma normalise_zero: "normalise 0 e = (0, 0)"
  by (simp add: normalise.simps)

lemma normalise_positive:
  "0 < m \<Longrightarrow> normalise m e = (m', e') \<Longrightarrow> e \<le> e' \<and> m = m' * 2 ^ nat (e' - e)"
proof (induction m e rule: normalise.induct)
  case (1 m e)
  show ?case
  proof (cases "even m")
    case False
    with 1(2,3) show ?thesis by (subst (asm) normalise.simps) auto
  next
    case True
    with 1(2) have pos: "0 < m div 2" by (auto elim: evenE)
    from True 1(2,3) have n: "normalise (m div 2) (e + 1) = (m', e')"
      by (subst (asm) normalise.simps) simp
    from 1(1) True 1(2) pos n have ih: "e + 1 \<le> e' \<and> m div 2 = m' * 2 ^ nat (e' - (e + 1))"
      by simp
    then have "nat (e' - e) = Suc (nat (e' - (e + 1)))" by linarith
    moreover from True have "m = 2 * (m div 2)" by simp
    ultimately show ?thesis using ih by simp
  qed
qed

lemma normalise_value:
  assumes "e \<le> 0" and "normalise m e = (m', e')"
  shows "(if 0 \<le> e' then int m' * 2 ^ nat e' else int m' div 2 ^ nat (- e'))
           = int m div 2 ^ nat (- e)"
proof (cases "m = 0")
  case True
  with assms(2) show ?thesis by (simp add: normalise_zero)
next
  case False
  with assms(2) have le: "e \<le> e'" and m: "m = m' * 2 ^ nat (e' - e)"
    using normalise_positive [of m e m' e'] by simp_all
  show ?thesis
  proof (cases "0 \<le> e'")
    case True
    with assms(1) have "nat (e' - e) = nat e' + nat (- e)" by linarith
    then have "int m = (int m' * 2 ^ nat e') * 2 ^ nat (- e)"
      using m by (simp add: power_add)
    then show ?thesis using True by simp
  next
    case False
    with le have "nat (- e) = nat (e' - e) + nat (- e')" by linarith
    then have "(2::int) ^ nat (- e) = 2 ^ nat (e' - e) * 2 ^ nat (- e')"
      by (simp add: power_add)
    moreover have "int m = 2 ^ nat (e' - e) * int m'" using m by simp
    ultimately have "int m div 2 ^ nat (- e) = int m' div 2 ^ nat (- e')"
      by simp
    then show ?thesis using False by simp
  qed
qed

lemma round_to_double_small:
  assumes p53: "p < 2 ^ 53" and q: "0 < q"
  shows "\<exists>m e. round_to_double sg p q = Finite sg m e \<and>
           (if 0 \<le> e then int m * 2 ^ nat e else int m div 2 ^ nat (- e)) = int (p div q)"
proof (cases "p = 0")
  case True
  then show ?thesis by (simp add: round_to_double_def)
next
  case False
  then have p: "0 < p" by simp
  define lg where "lg = floor_log2 p q"
  define e where "e = max (lg - 52) (- 1074)"
  define K :: nat where "K = 2 ^ nat (- e)"
  define m where "m = (if 0 \<le> e then round_half_even p (q * 2 ^ nat e)
                       else round_half_even (p * 2 ^ nat (- e)) q)"
  define n where "n = p div q"
  have K: "0 < K" by (simp add: K_def)
  from floor_log2_lower [OF p q]
  have lo: "0 \<le> lg \<Longrightarrow> q * 2 ^ nat lg \<le> p" and lo': "lg < 0 \<Longrightarrow> q \<le> p * 2 ^ nat (- lg)"
    by (simp_all add: lg_def)
  have lg52: "lg \<le> 52"
  proof (rule ccontr)
    assume "\<not> lg \<le> 52"
    then have "53 \<le> nat lg" and "0 \<le> lg" by linarith+
    then have "(2::nat) ^ 53 \<le> 2 ^ nat lg" by (intro power_increasing) simp_all
    also have "\<dots> \<le> q * 2 ^ nat lg" using q by simp
    also have "\<dots> \<le> p" using lo \<open>0 \<le> lg\<close> by simp
    finally show False using p53 by simp
  qed
  then have e0: "e \<le> 0" by (simp add: e_def)
  have m: "m = round_half_even (p * K) q"
    using e0 by (cases "e = 0") (simp_all add: m_def K_def)
  have small_q: "q < 2 * K" if "- 1074 \<le> lg - 52"
  proof -
    from that have e: "e = lg - 52" by (simp add: e_def)
    show ?thesis
    proof (cases "0 \<le> lg")
      case True
      with lg52 have "nat lg + nat (- e) = 52" by (simp add: e)
      then have "(2::nat) ^ 53 = 2 ^ nat lg * (2 * K)"
        by (simp add: K_def flip: power_add)
      moreover have "q * 2 ^ nat lg < 2 ^ 53" using lo [OF True] p53 by linarith
      ultimately have "q * 2 ^ nat lg < (2 * K) * 2 ^ nat lg" by (metis mult.commute)
      then show ?thesis by (simp only: mult_less_cancel2)
    next
      case False
      then have "nat (- e) = 52 + nat (- lg)" by (simp add: e)
      then have "2 * K = 2 ^ 53 * 2 ^ nat (- lg)" by (simp add: K_def power_add)
      moreover have "p * 2 ^ nat (- lg) < 2 ^ 53 * 2 ^ nat (- lg)" using p53 by simp
      moreover have "q \<le> p * 2 ^ nat (- lg)" using lo' False by simp
      ultimately show ?thesis by linarith
    qed
  qed
  have up: "2 * q * m \<le> 2 * (p * K) + q"
    unfolding m using q by (rule round_half_even_upper)
  have "p < (n + 1) * q"
    unfolding n_def using q by (metis Suc_eq_plus1 dividend_less_div_times mult.commute mult_Suc)
  then have "p + 1 \<le> (n + 1) * q" by simp
  then have "(p + 1) * K \<le> (n + 1) * q * K" by (rule mult_le_mono1)
  then have pK: "p * K + K \<le> (n + 1) * q * K" by (simp add: algebra_simps)
  have upper: "m < (n + 1) * K"
  proof (cases "q < 2 * K")
    case True
    with up have "2 * q * m < 2 * (p * K) + 2 * K" by linarith
    also have "\<dots> \<le> 2 * ((n + 1) * q * K)" using pK by linarith
    finally have "q * m < q * ((n + 1) * K)" by (simp add: algebra_simps)
    then show ?thesis by simp
  next
    case False
    with small_q have "\<not> - 1074 \<le> lg - 52" by blast
    then have "e = - 1074" unfolding e_def by linarith
    then have K1074: "K = 2 ^ 1074" by (simp add: K_def)
    have "(2::nat) ^ 53 \<le> 2 ^ 1074" by (intro power_increasing) simp_all
    with p53 K1074 have pK': "p < K" by linarith
    with False have "p < q" by linarith
    then have n0: "n = 0" by (simp add: n_def)
    have "m < K"
    proof (rule ccontr)
      assume "\<not> m < K"
      then have "K \<le> m" by simp
      then have "q * K \<le> q * m" by simp
      moreover from up have "2 * (q * m) \<le> 2 * (p * K) + q" by (simp add: mult.assoc)
      ultimately have a: "2 * (q * K) \<le> 2 * (p * K) + q" by linarith
      have "p * K < K * K" using pK' K by simp
      then have "2 * (p * K) < (2 * K) * K" by simp
      also have "\<dots> \<le> q * K" using False by simp
      finally have b: "2 * (p * K) < q * K" .
      have "q * 1 \<le> q * K" using K by (intro mult_le_mono2) simp
      then have c: "q \<le> q * K" by simp
      from a b c show False by linarith
    qed
    with n0 show ?thesis by simp
  qed
  have "n * q \<le> p" unfolding n_def by simp
  then have "n * K * q \<le> p * K" by (metis mult.assoc mult.commute mult_le_mono1)
  then have "n * K \<le> (p * K) div q" using q by (simp add: less_eq_div_iff_mult_less_eq)
  also have "\<dots> \<le> m" unfolding m using q by (rule round_half_even_lower)
  finally have lower: "n * K \<le> m" .
  have "m div K = n"
    using lower upper K
    by (metis Suc_eq_plus1 div_nat_eqI mult.commute)
  then have mK: "int m div 2 ^ nat (- e) = int n"
    by (metis K_def of_nat_numeral of_nat_power zdiv_int)
  obtain m' e' where norm: "normalise m e = (m', e')" by (cases "normalise m e")
  have "round_to_double sg p q =
          (if 971 < e \<or> (e = 971 \<and> 2 ^ 53 \<le> m) then Infinity sg
           else (case normalise m e of (m', e') \<Rightarrow> Finite sg m' e'))"
    unfolding round_to_double_def Let_def m_def e_def lg_def
    by (simp only: False if_False)
  then have rd: "round_to_double sg p q = Finite sg m' e'"
    using e0 norm by simp
  from normalise_value [OF e0 norm] mK rd show ?thesis
    by (simp add: n_def)
qed

lemma divide_integers_small:
  assumes "evaluate fuel left s = Some (Inr (VInt i, Integer, s1))"
    and "evaluate fuel right s1 = Some (Inr (VInt j, Integer, s2))"
    and "j \<noteq> 0" and "\<bar>i\<bar> < 2 ^ 53"
  shows "evaluate fuel (Divide left right) s =
           Some (Inr (VInt ((if (i < 0) \<noteq> (j < 0) then - 1 else 1) * (\<bar>i\<bar> div \<bar>j\<bar>)),
                      Integer, s2))"
proof -
  have "int (nat \<bar>i\<bar>) < int (2 ^ 53)" using assms(4) by simp
  then have p: "nat \<bar>i\<bar> < 2 ^ 53" by (simp only: of_nat_less_iff)
  have q: "0 < nat \<bar>j\<bar>" using assms(3) by simp
  from round_to_double_small [OF p q, of "(i < 0) \<noteq> (j < 0)"]
  obtain m e where
    r: "round_to_double ((i < 0) \<noteq> (j < 0)) (nat \<bar>i\<bar>) (nat \<bar>j\<bar>)
          = Finite ((i < 0) \<noteq> (j < 0)) m e" and
    v: "(if 0 \<le> e then int m * 2 ^ nat e else int m div 2 ^ nat (- e))
          = int (nat \<bar>i\<bar> div nat \<bar>j\<bar>)"
    by blast
  have "int (nat \<bar>i\<bar> div nat \<bar>j\<bar>) = \<bar>i\<bar> div \<bar>j\<bar>"
    by (simp add: zdiv_int)
  with v have v': "(if 0 \<le> e then int m * 2 ^ nat e else int m div 2 ^ nat (- e)) = \<bar>i\<bar> div \<bar>j\<bar>"
    by simp
  show ?thesis
    unfolding divide_integers [OF assms(1,2,3)] r using v' 
    by (simp del: abs_div_pos)
qed

text \<open>
  Claim C7 says that the quotient of two Integers is the exact quotient with its
  fraction cut off. The interpreter divides with \<^verbatim>\<open>/\<close>, whose result is a float,
  and converts the float back: the quotient is rounded to 53 bits first. So
  \<open>9007199254740993 / 1\<close> (that is \<open>2 ^ 53 + 1\<close>) yields \<open>9007199254740992\<close>. The
  examples of the claim come out as it says.
\<close>

theorem integer_division_through_float:
  "evaluate 0 (Divide (IntLiteral 9007199254740993) (IntLiteral 1)) EmptyState
     = Some (Inr (VInt 9007199254740992, Integer, EmptyState))
   \<and> evaluate 0 (Divide (IntLiteral 7) (IntLiteral 2)) EmptyState
     = Some (Inr (VInt 3, Integer, EmptyState))
   \<and> evaluate 0 (Divide (IntLiteral (- 7)) (IntLiteral 2)) EmptyState
     = Some (Inr (VInt (- 3), Integer, EmptyState))
   \<and> evaluate 0 (Divide (FloatingPointLiteral (Finite False 7 0))
                   (FloatingPointLiteral (Finite False 2 0))) EmptyState
     = Some (Inr (VFloat (Finite False 7 (- 1)), FloatingPoint, EmptyState))"
  by (simp add: host_eval)

section \<open>And, Or\<close>

text \<open>
  Claim C8. Once the left operand of \<open>And\<close> or \<open>Or\<close> has returned, the right
  operand is evaluated in the state the left one returned, whatever the left value
  is: the state it returns is the state of the result, an error it raises is raised,
  and if it does not return neither does the whole.
\<close>

theorem and_or_evaluate_both:
  assumes "evaluate fuel left s = Some (Inr (lv, lt, s1))"
  shows "(evaluate fuel right s1 = Some (Inr (rv, Boolean, s2)) \<and> lt = Boolean \<longrightarrow>
            evaluate fuel (And left right) s
              = Some (Inr (if truthy lv then rv else lv, Boolean, s2))
          \<and> evaluate fuel (Or left right) s
              = Some (Inr (if truthy lv then lv else rv, Boolean, s2)))
       \<and> (evaluate fuel right s1 = Some (Inl err) \<longrightarrow>
            evaluate fuel (And left right) s = Some (Inl err)
          \<and> evaluate fuel (Or left right) s = Some (Inl err))
       \<and> (evaluate fuel right s1 = None \<longrightarrow>
            evaluate fuel (And left right) s = None \<and> evaluate fuel (Or left right) s = None)"
  using assms by (simp add: and_result_def or_result_def in_state_def)

lemma and_or_returns:
  assumes "evaluate fuel (And left right) s = Some (Inr (v, t, s')) \<or>
           evaluate fuel (Or left right) s = Some (Inr (v, t, s'))"
  shows "\<exists>lv lt s1 rv rt. evaluate fuel left s = Some (Inr (lv, lt, s1)) \<and>
           evaluate fuel right s1 = Some (Inr (rv, rt, s'))"
  using assms by (auto elim!: bind_cases in_state_cases)

theorem and_or_evaluate_both_witness:
  "evaluate 0 (BooleanLiteral False) EmptyState = Some (Inr (VBool False, Boolean, EmptyState))
   \<and> evaluate 0 (Assign ''x'' (BooleanLiteral True)) EmptyState
       = Some (Inr (VBool True, Boolean, State ''x'' (VBool True) Boolean EmptyState))
   \<and> evaluate 0 (And (BooleanLiteral False) (Assign ''x'' (BooleanLiteral True))) EmptyState
       = Some (Inr (VBool False, Boolean, State ''x'' (VBool True) Boolean EmptyState))
   \<and> evaluate 0 (BooleanLiteral True) EmptyState = Some (Inr (VBool True, Boolean, EmptyState))
   \<and> evaluate 0 (Or (BooleanLiteral True) (Assign ''x'' (BooleanLiteral True))) EmptyState
       = Some (Inr (VBool True, Boolean, State ''x'' (VBool True) Boolean EmptyState))
   \<and> evaluate 0 (Variable ''y'') EmptyState = Some (Inl InterpSyntaxError)
   \<and> evaluate 0 (And (BooleanLiteral False) (Variable ''y'')) EmptyState
       = Some (Inl InterpSyntaxError)
   \<and> evaluate 0 (While (BooleanLiteral True) Ren) EmptyState = None
   \<and> evaluate 0 (Or (BooleanLiteral True) (While (BooleanLiteral True) Ren)) EmptyState = None"
proof -
  have f: "evaluate 0 (BooleanLiteral False) EmptyState
             = Some (Inr (VBool False, Boolean, EmptyState))"
    and t: "evaluate 0 (BooleanLiteral True) EmptyState
             = Some (Inr (VBool True, Boolean, EmptyState))"
    by simp_all
  have a: "evaluate 0 (Assign ''x'' (BooleanLiteral True)) EmptyState
       = Some (Inr (VBool True, Boolean, State ''x'' (VBool True) Boolean EmptyState))"
    by (simp add: assign_result_def)
  have y: "evaluate 0 (Variable ''y'') EmptyState = Some (Inl InterpSyntaxError)"
    by simp
  have w: "evaluate 0 (While (BooleanLiteral True) Ren) EmptyState = None"
    by (simp add: while_loop.simps)
  show ?thesis
    using f t a y w
      and_or_evaluate_both [OF f, of "Assign ''x'' (BooleanLiteral True)" "VBool True"
        "State ''x'' (VBool True) Boolean EmptyState"]
      and_or_evaluate_both [OF t, of "Assign ''x'' (BooleanLiteral True)" "VBool True"
        "State ''x'' (VBool True) Boolean EmptyState"]
      and_or_evaluate_both [OF f, of "Variable ''y''" _ _ InterpSyntaxError]
      and_or_evaluate_both [OF t, of "While (BooleanLiteral True) Ren"]
    by simp
qed

section \<open>Assignment: where the target is looked up\<close>

text \<open>
  Claim C9. \<open>Assign x e\<close> looks \<open>x\<close> up in the state that the evaluation of \<open>e\<close>
  returned, not in the state it started with: a binding of another type there is the
  type error, also when \<open>e\<close> itself made that binding.
\<close>

theorem assign_checks_returned_state:
  assumes "evaluate fuel e s = Some (Inr (v, t, s1))"
  shows "evaluate fuel (Assign x e) s =
           (case get_value s1 x of
              None \<Rightarrow> Some (Inr (v, t, State x v t s1))
            | Some (v0, t0) \<Rightarrow>
                if t0 = t then Some (Inr (v, t, State x v t s1))
                else Some (Inl InterpTypeError))"
  using assms by (auto simp: assign_result_def split: option.splits)

theorem assign_checks_returned_state_witness:
  "get_value EmptyState ''x'' = None
   \<and> evaluate 0 (Sequence [Assign ''x'' (StringLiteral ''hi''), IntLiteral 5]) EmptyState
       = Some (Inr (VInt 5, Integer, State ''x'' (VStr ''hi'') String EmptyState))
   \<and> get_value (State ''x'' (VStr ''hi'') String EmptyState) ''x'' = Some (VStr ''hi'', String)
   \<and> evaluate 0 (Assign ''x'' (Sequence [Assign ''x'' (StringLiteral ''hi''), IntLiteral 5]))
         EmptyState
       = Some (Inl InterpTypeError)"
proof -
  have v: "evaluate 0 (Sequence [Assign ''x'' (StringLiteral ''hi''), IntLiteral 5]) EmptyState
       = Some (Inr (VInt 5, Integer, State ''x'' (VStr ''hi'') String EmptyState))"
    by (simp add: assign_result_def)
  show ?thesis
    using v assign_checks_returned_state [OF v, of "''x''"] by simp
qed

section \<open>The empty sequence\<close>

text \<open>
  Claim C10. Evaluating a \<open>Sequence\<close> or a \<open>Program\<close> without expressions returns
  no triple: the host raises \<^verbatim>\<open>UnboundLocalError\<close>, which is none of the three errors
  of the interpreter.
\<close>

theorem empty_sequence_unbound_local:
  "evaluate fuel (Sequence []) s = Some (Inl (HostError UnboundLocalError))
   \<and> evaluate fuel (Program []) s = Some (Inl (HostError UnboundLocalError))
   \<and> HostError UnboundLocalError \<noteq> InterpSyntaxError
   \<and> HostError UnboundLocalError \<noteq> InterpTypeError
   \<and> HostError UnboundLocalError \<noteq> InterpMathError"
  by simp

end
